theory Spec2Isabelle
  imports Complex_Main "HOL-Library.AList"
begin

section \<open>Values, exceptions and the HTTP transport\<close>

text \<open>
  The program is \<^verbatim>\<open>Stock_App.py\<close>: two cached fetch functions (\<^verbatim>\<open>get_coins_list\<close>,
  \<^verbatim>\<open>get_coin_history\<close>) and \<^verbatim>\<open>main\<close>, which computes the maximum and minimum price
  of the fetched table. The values that \<^verbatim>\<open>response.json()\<close> produces are JSON values.
  A Python \<^verbatim>\<open>int\<close> is an \<open>int\<close>; a Python \<^verbatim>\<open>float\<close> is read as the real number it
  denotes (no NaN, no infinity, no rounding). A JSON object is the list of the items
  of the Python dict, whose keys are distinct.
\<close>

datatype json =
    JNull
  | JBool bool
  | JInt int
  | JFloat real
  | JStr string
  | JArr "json list"
  | JObj "(string \<times> json) list"

text \<open>
  The exceptions that the modelled calls raise, by the class that catches them
  (\<^verbatim>\<open>OutOfBoundsDatetime\<close> of pandas is a \<^verbatim>\<open>ValueError\<close>). \<open>Unmodelled\<close> is not a
  Python exception: it marks an input on which the behaviour of pandas is not
  described here, because it needs the rounding of floats or differs between the
  releases of pandas (the source pins none), or is outside the shape that the
  program expects (a cell that is not a number, a row that is not a pair). No
  property below holds by way of \<open>Unmodelled\<close>.
\<close>

datatype exn =
    ConnectionError
  | JSONDecodeError
  | AttributeError
  | KeyError
  | ValueError
  | Unmodelled

definition bind_exn :: "exn + 'a \<Rightarrow> ('a \<Rightarrow> exn + 'b) \<Rightarrow> exn + 'b" where
  "bind_exn m f = (case m of Inl e \<Rightarrow> Inl e | Inr x \<Rightarrow> f x)"

fun traverse :: "('a \<Rightarrow> exn + 'b) \<Rightarrow> 'a list \<Rightarrow> exn + 'b list" where
  "traverse f [] = Inr []"
| "traverse f (x # xs) =
     bind_exn (f x) (\<lambda>y. bind_exn (traverse f xs) (\<lambda>ys. Inr (y # ys)))"

datatype param = PStr string | PInt int

record request =
  url :: string
  params :: "(string \<times> param) list"

text \<open>
  Of a \<^verbatim>\<open>requests.Response\<close> the program reads the attribute \<^verbatim>\<open>ok\<close> and calls
  \<^verbatim>\<open>json()\<close>, which raises when the body is not JSON text (\<open>body = None\<close>).
\<close>

record response =
  ok :: bool
  body :: "json option"

definition response_json :: "response \<Rightarrow> exn + json" where
  "response_json r = (case body r of None \<Rightarrow> Inl JSONDecodeError | Some v \<Rightarrow> Inr v)"

text \<open>
  The transport stands for the network: the answer to the \<open>n\<close>-th GET of the
  process, a response or an exception of \<^verbatim>\<open>requests.get\<close> itself.
\<close>

type_synonym transport = "nat \<Rightarrow> request \<Rightarrow> exn + response"

section \<open>Tables\<close>

text \<open>
  A pandas \<^verbatim>\<open>DataFrame\<close> built from a list of rows has the default index
  \<open>0, 1, \<dots>\<close>; it is modelled by its columns in order, each a name and the cells of
  the column. A \<open>DatetimeCell\<close> holds an instant as milliseconds since the epoch;
  a \<open>DateCell\<close> is a \<^verbatim>\<open>datetime.date\<close>.
\<close>

datatype date = Date (year: int) (month: int) (day: int)

datatype cell =
    IntCell int
  | FloatCell real
  | DatetimeCell int
  | DateCell date

type_synonym frame = "(string \<times> cell list) list"

definition nrows :: "frame \<Rightarrow> nat" where
  "nrows df = (case df of [] \<Rightarrow> 0 | (_, c) # _ \<Rightarrow> length c)"

definition columns :: "frame \<Rightarrow> string list" where
  "columns df = map fst df"

text \<open>
  The cells of a column of JSON numbers follow the dtype that pandas infers for the
  column. A column of integers that all fit 64 bits is \<^verbatim>\<open>int64\<close> and holds them as
  they are. A column with a float in it is \<^verbatim>\<open>float64\<close>: a float is held as it is, an
  integer of magnitude up to \<open>2^53\<close> is held exactly; a larger integer would be rounded
  to a float, which is not described here.
\<close>

fun is_int :: "json \<Rightarrow> bool" where
  "is_int (JInt i) = True"
| "is_int _ = False"

definition in_int64 :: "int \<Rightarrow> bool" where
  "in_int64 i \<longleftrightarrow> - 9223372036854775808 \<le> i \<and> i \<le> 9223372036854775807"

fun int64_cell :: "json \<Rightarrow> exn + cell" where
  "int64_cell (JInt i) = (if in_int64 i then Inr (IntCell i) else Inl Unmodelled)"
| "int64_cell _ = Inl Unmodelled"

fun float64_cell :: "json \<Rightarrow> exn + cell" where
  "float64_cell (JFloat x) = Inr (FloatCell x)"
| "float64_cell (JInt i) =
     (if \<bar>i\<bar> \<le> 9007199254740992 then Inr (FloatCell (real_of_int i)) else Inl Unmodelled)"
| "float64_cell _ = Inl Unmodelled"

definition column_cells :: "json list \<Rightarrow> exn + cell list" where
  "column_cells vs =
     (if list_all is_int vs then traverse int64_cell vs else traverse float64_cell vs)"

fun row_values :: "nat \<Rightarrow> json \<Rightarrow> exn + json list" where
  "row_values n (JArr vs) = (if length vs = n then Inr vs else Inl Unmodelled)"
| "row_values n _ = Inl Unmodelled"

text \<open>\<^verbatim>\<open>pd.DataFrame(data, columns=names)\<close> for \<open>data\<close> a list of rows.\<close>

definition DataFrame :: "json \<Rightarrow> string list \<Rightarrow> exn + frame" where
  "DataFrame data names =
     (case data of
        JArr rows \<Rightarrow>
          bind_exn (traverse (row_values (length names)) rows) (\<lambda>rs.
            traverse (\<lambda>(j, name).
                bind_exn (column_cells (map (\<lambda>r. r ! j) rs)) (\<lambda>c. Inr (name, c)))
              (enumerate 0 names))
      | _ \<Rightarrow> Inl Unmodelled)"

text \<open>\<^verbatim>\<open>pd.DataFrame(columns=names)\<close>: the named columns, no rows.\<close>

definition DataFrame_empty :: "string list \<Rightarrow> frame" where
  "DataFrame_empty names = map (\<lambda>name. (name, [])) names"

text \<open>\<^verbatim>\<open>df[name]\<close>, \<^verbatim>\<open>df[name] = col\<close> and \<^verbatim>\<open>df.drop(columns=names)\<close>.\<close>

definition getitem :: "frame \<Rightarrow> string \<Rightarrow> exn + cell list" where
  "getitem df name = (case map_of df name of None \<Rightarrow> Inl KeyError | Some c \<Rightarrow> Inr c)"

definition setitem :: "frame \<Rightarrow> string \<Rightarrow> cell list \<Rightarrow> exn + frame" where
  "setitem df name col =
     (if df \<noteq> [] \<and> length col \<noteq> nrows df then Inl ValueError
      else Inr (AList.update name col df))"

definition drop_columns :: "frame \<Rightarrow> string list \<Rightarrow> exn + frame" where
  "drop_columns df names =
     (if list_all (\<lambda>n. n \<in> set (columns df)) names
      then Inr (filter (\<lambda>(n, c). n \<notin> set names) df)
      else Inl KeyError)"

text \<open>
  Line 32, \<^verbatim>\<open>pd.to_datetime(col, unit='ms').dt.date\<close>, on a column of integers. The
  instants are UTC. A timestamp whose nanoseconds fit 64 bits (the least value is
  reserved for NaT) becomes an instant in every release of pandas. Outside this range
  the releases differ. Up to pandas 2 \<^verbatim>\<open>to_datetime\<close> raises \<^verbatim>\<open>OutOfBoundsDatetime\<close>;
  pandas 3 keeps milliseconds, and \<^verbatim>\<open>.dt.date\<close> raises \<^verbatim>\<open>ValueError\<close> when the day is
  after 9999-12-31, the last \<^verbatim>\<open>datetime.date\<close> (day 2932896). So a timestamp after
  that day raises a \<^verbatim>\<open>ValueError\<close> out of line 32 in every release, placed here in the
  first of the two calls; for the other timestamps outside the nanosecond range the
  outcome depends on the release and is not described.
\<close>

definition ns_max :: int where
  "ns_max = 9223372036854775807"

definition in_ns_range :: "int \<Rightarrow> bool" where
  "in_ns_range t \<longleftrightarrow> - ns_max \<le> t * 1000000 \<and> t * 1000000 \<le> ns_max"

definition after_max_date :: "int \<Rightarrow> bool" where
  "after_max_date t \<longleftrightarrow> 2932896 < t div 86400000"

fun to_datetime_ms_cell :: "cell \<Rightarrow> exn + cell" where
  "to_datetime_ms_cell (IntCell t) =
     (if in_ns_range t then Inr (DatetimeCell t)
      else if after_max_date t then Inl ValueError
      else Inl Unmodelled)"
| "to_datetime_ms_cell _ = Inl Unmodelled"

definition to_datetime_ms :: "cell list \<Rightarrow> exn + cell list" where
  "to_datetime_ms col = traverse to_datetime_ms_cell col"

text \<open>
  \<^verbatim>\<open>.dt.date\<close>: the calendar day of each instant. The day number is the floor of the
  milliseconds over the 86400000 milliseconds of a day; the day number becomes year,
  month and day of the proleptic Gregorian calendar (day 0 is 1970-01-01).
\<close>

definition date_of_days :: "int \<Rightarrow> date" where
  "date_of_days n =
     (let z = n + 719468;
          era = z div 146097;
          doe = z - era * 146097;
          yoe = (doe - doe div 1460 + doe div 36524 - doe div 146096) div 365;
          doy = doe - (365 * yoe + yoe div 4 - yoe div 100);
          mp = (5 * doy + 2) div 153;
          d = doy - (153 * mp + 2) div 5 + 1;
          m = (if mp < 10 then mp + 3 else mp - 9);
          y = yoe + era * 400
      in Date (if m \<le> 2 then y + 1 else y) m d)"

fun dt_date_cell :: "cell \<Rightarrow> exn + cell" where
  "dt_date_cell (DatetimeCell ms) = Inr (DateCell (date_of_days (ms div 86400000)))"
| "dt_date_cell _ = Inl AttributeError"

definition dt_date :: "cell list \<Rightarrow> exn + cell list" where
  "dt_date col = traverse dt_date_cell col"

section \<open>The process state and Streamlit\<close>

text \<open>
  The state of the process: the GETs issued so far, the messages shown with
  \<^verbatim>\<open>st.error\<close>, and the stores of \<^verbatim>\<open>@st.cache_data\<close> for the two decorated
  functions. A store maps the arguments of a call to the value it returned and the
  messages it showed, which Streamlit shows again when it answers from the store.
  No \<^verbatim>\<open>ttl\<close> is given in the source, so an entry never expires.
\<close>

record world =
  http_log :: "request list"
  notices :: "string list"
  coins_cache :: "(json \<times> string list) option"
  history_cache :: "(string \<times> int \<times> int) \<Rightarrow> (frame \<times> string list) option"

definition requests_get :: "transport \<Rightarrow> request \<Rightarrow> world \<Rightarrow> (exn + response) \<times> world" where
  "requests_get net req w = (net (length (http_log w)) req, w\<lparr>http_log := http_log w @ [req]\<rparr>)"

definition st_error :: "string \<Rightarrow> world \<Rightarrow> world" where
  "st_error msg w = w\<lparr>notices := notices w @ [msg]\<rparr>"

section \<open>The catalog: \<^verbatim>\<open>get_coins_list\<close>\<close>

definition coins_request :: request where
  "coins_request = \<lparr>url = ''https://api.coingecko.com/api/v3/coins/list'', params = []\<rparr>"

text \<open>The function as written (lines 9 to 17), without its decorator.\<close>

definition get_coins_list_body :: "transport \<Rightarrow> world \<Rightarrow> (exn + json) \<times> world" where
  "get_coins_list_body net w =
     (let (r, w1) = requests_get net coins_request w in
      case r of
        Inl e \<Rightarrow> (Inl e, w1)
      | Inr response \<Rightarrow>
          if ok response then
            (case response_json response of
               Inl e \<Rightarrow> (Inl e, w1)
             | Inr coins \<Rightarrow> (Inr coins, w1))
          else (Inr (JArr []), st_error ''Error fetching the coins list.'' w1))"

text \<open>
  The decorated function: a call answered from the store shows the stored messages
  and issues no GET; otherwise the body runs and, when it returns, its value and
  the messages it showed are stored. A raised exception stores nothing.
\<close>

definition get_coins_list :: "transport \<Rightarrow> world \<Rightarrow> (exn + json) \<times> world" where
  "get_coins_list net w =
     (case coins_cache w of
        Some (v, msgs) \<Rightarrow> (Inr v, w\<lparr>notices := notices w @ msgs\<rparr>)
      | None \<Rightarrow>
          (let (r, w1) = get_coins_list_body net w in
           case r of
             Inl e \<Rightarrow> (Inl e, w1)
           | Inr v \<Rightarrow>
               (Inr v, w1\<lparr>coins_cache := Some (v, drop (length (notices w)) (notices w1))\<rparr>)))"

section \<open>The history: \<^verbatim>\<open>get_coin_history\<close>\<close>

definition dict_get :: "json \<Rightarrow> string \<Rightarrow> json \<Rightarrow> exn + json" where
  "dict_get data key dflt =
     (case data of
        JObj items \<Rightarrow> (case map_of items key of None \<Rightarrow> Inr dflt | Some v \<Rightarrow> Inr v)
      | _ \<Rightarrow> Inl AttributeError)"

definition history_request :: "string \<Rightarrow> int \<Rightarrow> int \<Rightarrow> request" where
  "history_request coin_id from_timestamp to_timestamp =
     \<lparr>url = ''https://api.coingecko.com/api/v3/coins/'' @ coin_id @ ''/market_chart/range'',
      params = [(''vs_currency'', PStr ''usd''),
                (''from'', PInt from_timestamp),
                (''to'', PInt to_timestamp)]\<rparr>"

text \<open>Lines 29 to 33: the table of a response whose status is a success.\<close>

definition history_frame :: "response \<Rightarrow> exn + frame" where
  "history_frame response =
     bind_exn (response_json response) (\<lambda>data.
     bind_exn (dict_get data ''prices'' (JArr [])) (\<lambda>prices.
     bind_exn (DataFrame prices [''timestamp'', ''price'']) (\<lambda>df.
     bind_exn (getitem df ''timestamp'') (\<lambda>ts.
     bind_exn (to_datetime_ms ts) (\<lambda>dt.
     bind_exn (dt_date dt) (\<lambda>dates.
     bind_exn (setitem df ''date'' dates) (\<lambda>df'.
     drop_columns df' [''timestamp''])))))))"

definition get_coin_history_body ::
  "transport \<Rightarrow> string \<Rightarrow> int \<Rightarrow> int \<Rightarrow> world \<Rightarrow> (exn + frame) \<times> world" where
  "get_coin_history_body net coin_id from_timestamp to_timestamp w =
     (let (r, w1) = requests_get net (history_request coin_id from_timestamp to_timestamp) w in
      case r of
        Inl e \<Rightarrow> (Inl e, w1)
      | Inr response \<Rightarrow>
          if ok response then (history_frame response, w1)
          else (Inr (DataFrame_empty [''date'', ''price'']),
                st_error (''Error fetching the historical data for '' @ coin_id @ ''.'') w1))"

definition get_coin_history ::
  "transport \<Rightarrow> string \<Rightarrow> int \<Rightarrow> int \<Rightarrow> world \<Rightarrow> (exn + frame) \<times> world" where
  "get_coin_history net coin_id from_timestamp to_timestamp w =
     (case history_cache w (coin_id, from_timestamp, to_timestamp) of
        Some (v, msgs) \<Rightarrow> (Inr v, w\<lparr>notices := notices w @ msgs\<rparr>)
      | None \<Rightarrow>
          (let (r, w1) = get_coin_history_body net coin_id from_timestamp to_timestamp w in
           case r of
             Inl e \<Rightarrow> (Inl e, w1)
           | Inr v \<Rightarrow>
               (Inr v,
                w1\<lparr>history_cache := (history_cache w1)
                     ((coin_id, from_timestamp, to_timestamp) \<mapsto>
                        (v, drop (length (notices w)) (notices w1)))\<rparr>)))"

section \<open>The statistics of \<^verbatim>\<open>main\<close>\<close>

text \<open>
  \<^verbatim>\<open>main\<close> reads the maximum and minimum of the \<^verbatim>\<open>price\<close> column and the dates of
  the rows where they stand (lines 71 to 76). \<^verbatim>\<open>idxmax\<close> and \<^verbatim>\<open>idxmin\<close> scan the
  column from the first row and move to a later row only for a strictly better value;
  on an empty column they raise. The label they return is the position of the row,
  the index being \<open>0, 1, \<dots>\<close>. The maximum of an empty column is NaN in pandas, which
  the reals lack: \<open>Unmodelled\<close>.
\<close>

fun cell_value :: "cell \<Rightarrow> exn + real" where
  "cell_value (IntCell i) = Inr (real_of_int i)"
| "cell_value (FloatCell x) = Inr x"
| "cell_value _ = Inl Unmodelled"

fun argmax_scan :: "real list \<Rightarrow> nat \<Rightarrow> nat \<Rightarrow> real \<Rightarrow> nat" where
  "argmax_scan [] i b v = b"
| "argmax_scan (x # xs) i b v =
     (if v < x then argmax_scan xs (Suc i) i x else argmax_scan xs (Suc i) b v)"

fun argmin_scan :: "real list \<Rightarrow> nat \<Rightarrow> nat \<Rightarrow> real \<Rightarrow> nat" where
  "argmin_scan [] i b v = b"
| "argmin_scan (x # xs) i b v =
     (if x < v then argmin_scan xs (Suc i) i x else argmin_scan xs (Suc i) b v)"

definition idxmax :: "cell list \<Rightarrow> exn + nat" where
  "idxmax col =
     bind_exn (traverse cell_value col) (\<lambda>vs.
       case vs of [] \<Rightarrow> Inl ValueError | x # xs \<Rightarrow> Inr (argmax_scan xs 1 0 x))"

definition idxmin :: "cell list \<Rightarrow> exn + nat" where
  "idxmin col =
     bind_exn (traverse cell_value col) (\<lambda>vs.
       case vs of [] \<Rightarrow> Inl ValueError | x # xs \<Rightarrow> Inr (argmin_scan xs 1 0 x))"

definition series_max :: "cell list \<Rightarrow> exn + real" where
  "series_max col =
     bind_exn (traverse cell_value col) (\<lambda>vs.
       case vs of [] \<Rightarrow> Inl Unmodelled | x # xs \<Rightarrow> Inr (fold max xs x))"

definition series_min :: "cell list \<Rightarrow> exn + real" where
  "series_min col =
     bind_exn (traverse cell_value col) (\<lambda>vs.
       case vs of [] \<Rightarrow> Inl Unmodelled | x # xs \<Rightarrow> Inr (fold min xs x))"

definition loc :: "frame \<Rightarrow> nat \<Rightarrow> exn + (string \<times> cell) list" where
  "loc df i =
     (if df \<noteq> [] \<and> list_all (\<lambda>(n, c). i < length c) df
      then Inr (map (\<lambda>(n, c). (n, c ! i)) df) else Inl KeyError)"

definition row_get :: "(string \<times> cell) list \<Rightarrow> string \<Rightarrow> exn + cell" where
  "row_get row name = (case map_of row name of None \<Rightarrow> Inl KeyError | Some v \<Rightarrow> Inr v)"

record stats =
  max_price :: real
  max_price_date :: cell
  min_price :: real
  min_price_date :: cell

definition main_stats :: "frame \<Rightarrow> exn + stats" where
  "main_stats df =
     bind_exn (getitem df ''price'') (\<lambda>price1.
     bind_exn (idxmax price1) (\<lambda>imax.
     bind_exn (loc df imax) (\<lambda>row_max.
     bind_exn (row_get row_max ''date'') (\<lambda>max_price_date.
     bind_exn (getitem df ''price'') (\<lambda>price2.
     bind_exn (idxmin price2) (\<lambda>imin.
     bind_exn (loc df imin) (\<lambda>row_min.
     bind_exn (row_get row_min ''date'') (\<lambda>min_price_date.
     bind_exn (getitem df ''price'') (\<lambda>price3.
     bind_exn (series_max price3) (\<lambda>max_price.
     bind_exn (getitem df ''price'') (\<lambda>price4.
     bind_exn (series_min price4) (\<lambda>min_price.
     Inr \<lparr>max_price = max_price, max_price_date = max_price_date,
          min_price = min_price, min_price_date = min_price_date\<rparr>))))))))))))"


text \<open>
  \<^verbatim>\<open>df.empty\<close>, and the branch of \<^verbatim>\<open>main\<close> on it (lines 63 to 85, without the chart
  and the layout): the statistics of a table that has rows, a message otherwise.
\<close>

definition df_empty :: "frame \<Rightarrow> bool" where
  "df_empty df \<longleftrightarrow> df = [] \<or> nrows df = 0"

definition main_report :: "frame \<Rightarrow> world \<Rightarrow> (exn + stats option) \<times> world" where
  "main_report df w =
     (if \<not> df_empty df then
        (case main_stats df of Inl e \<Rightarrow> (Inl e, w) | Inr s \<Rightarrow> (Inr (Some s), w))
      else (Inr None,
            st_error ''No data available for the selected cryptocurrency and date range.'' w))"

text \<open>
  Lines 77 and 78: \<^verbatim>\<open>f"{price:.12f}"\<close>. The number is rounded to the nearest multiple of
  \<open>1 / 10^12\<close>, a tie to the even one, and written as an optional sign, the digits of
  the integer part, a point and twelve digits.
\<close>

definition round_half_even :: "real \<Rightarrow> int" where
  "round_half_even y =
     (let n = \<lfloor>y\<rfloor>; d = y - of_int n
      in if d < 1 / 2 then n
         else if 1 / 2 < d then n + 1
         else if even n then n else n + 1)"

definition digit_char :: "int \<Rightarrow> char" where
  "digit_char d = char_of (48 + d)"

function int_digits :: "int \<Rightarrow> string" where
  "int_digits n = (if n < 10 then [digit_char n] else int_digits (n div 10) @ [digit_char (n mod 10)])"
  by pat_completeness auto
termination
  by (relation "measure nat") auto

declare int_digits.simps [simp del]

fun frac_digits :: "nat \<Rightarrow> int \<Rightarrow> string" where
  "frac_digits 0 n = []"
| "frac_digits (Suc w) n = frac_digits w (n div 10) @ [digit_char (n mod 10)]"

definition format_12f :: "real \<Rightarrow> string" where
  "format_12f x =
     (let k = round_half_even (\<bar>x\<bar> * 10 ^ 12)
      in (if x < 0 then ''-'' else []) @ int_digits (k div 10 ^ 12) @ ''.''
           @ frac_digits 12 (k mod 10 ^ 12))"

definition main_formatted :: "stats \<Rightarrow> string \<times> string" where
  "main_formatted s = (format_12f (max_price s), format_12f (min_price s))"

text \<open>
  Reading such a text back, as \<^verbatim>\<open>float(text)\<close> does for plain decimal notation: an
  optional minus sign, digits, and optionally a point and digits. The program never
  reads a price back; this is the other half of the round trip that the
  specification asks for. Any other text is \<open>None\<close> here.
\<close>

definition digit_value :: "char \<Rightarrow> int option" where
  "digit_value c =
     (let n = of_char c :: int in if 48 \<le> n \<and> n \<le> 57 then Some (n - 48) else None)"

fun digits_value :: "string \<Rightarrow> int \<Rightarrow> int option" where
  "digits_value [] acc = Some acc"
| "digits_value (c # cs) acc =
     (case digit_value c of None \<Rightarrow> None | Some d \<Rightarrow> digits_value cs (10 * acc + d))"

definition float_unsigned :: "string \<Rightarrow> real option" where
  "float_unsigned s =
     (let ip = takeWhile (\<lambda>c. c \<noteq> CHR ''.'') s; fp = drop (Suc (length ip)) s
      in if ip = [] \<and> fp = [] then None
         else case digits_value ip 0 of
                None \<Rightarrow> None
              | Some a \<Rightarrow>
                  (case digits_value fp 0 of
                     None \<Rightarrow> None
                   | Some b \<Rightarrow> Some (of_int a + of_int b / 10 ^ length fp)))"

definition float_parse :: "string \<Rightarrow> real option" where
  "float_parse s =
     (case s of
        [] \<Rightarrow> None
      | c # cs \<Rightarrow> if c = CHR ''-'' then map_option uminus (float_unsigned cs)
                  else float_unsigned s)"

section \<open>Example inputs\<close>

text \<open>
  A process that has issued no request yet, and transports that answer every request
  alike: with a given response, or with one response first and another afterwards.
\<close>

definition fresh :: world where
  "fresh = \<lparr>http_log = [], notices = [], coins_cache = None, history_cache = (\<lambda>k. None)\<rparr>"

definition always :: "response \<Rightarrow> transport" where
  "always r n req = Inr r"


definition http_500 :: response where
  "http_500 = \<lparr>ok = False, body = Some (JObj [(''error'', JStr ''internal'')])\<rparr>"

definition ok_json :: "json \<Rightarrow> response" where
  "ok_json v = \<lparr>ok = True, body = Some v\<rparr>"

definition ok_not_json :: response where
  "ok_not_json = \<lparr>ok = True, body = None\<rparr>"

text \<open>
  What the catalog's readers expect of an entry (\<^verbatim>\<open>main\<close> reads \<^verbatim>\<open>coin["name"]\<close> and
  \<^verbatim>\<open>coin["id"]\<close>): an object whose \<^verbatim>\<open>id\<close> and \<^verbatim>\<open>name\<close> are non-empty strings.
\<close>

definition nonempty_id_name :: "json \<Rightarrow> bool" where
  "nonempty_id_name c =
     (case c of
        JObj items \<Rightarrow>
          (case map_of items ''id'' of
             Some (JStr i) \<Rightarrow>
               (case map_of items ''name'' of Some (JStr n) \<Rightarrow> i \<noteq> [] \<and> n \<noteq> [] | _ \<Rightarrow> False)
           | _ \<Rightarrow> False)
      | _ \<Rightarrow> False)"

text \<open>The shape that the readers of a history table rely on: the two columns they name.\<close>

definition date_price_columns :: "frame \<Rightarrow> bool" where
  "date_price_columns df \<longleftrightarrow> set (columns df) = {''date'', ''price''} \<and> distinct (columns df)"

text \<open>The number that a JSON value of the response denotes.\<close>

fun json_number :: "json \<Rightarrow> exn + real" where
  "json_number (JInt i) = Inr (real_of_int i)"
| "json_number (JFloat x) = Inr x"
| "json_number _ = Inl Unmodelled"


section \<open>Properties\<close>

subsection \<open>Scanning for an extreme value\<close>

lemma argmax_scan_spec:
  "b < length ys \<Longrightarrow> ys ! b = v \<Longrightarrow> \<forall>k<length ys. ys ! k \<le> v \<Longrightarrow> \<forall>k<b. ys ! k < v \<Longrightarrow>
   argmax_scan xs (length ys) b v < length (ys @ xs) \<and>
   (\<forall>k<length (ys @ xs). (ys @ xs) ! k \<le> (ys @ xs) ! argmax_scan xs (length ys) b v) \<and>
   (\<forall>k<argmax_scan xs (length ys) b v. (ys @ xs) ! k < (ys @ xs) ! argmax_scan xs (length ys) b v)"
proof (induction xs arbitrary: ys b v)
  case Nil
  then show ?case by simp
next
  case (Cons x xs)
  show ?case
  proof (cases "v < x")
    case True
    have a: "length ys < length (ys @ [x])" by simp
    have b: "(ys @ [x]) ! length ys = x" by simp
    have c: "\<forall>k<length (ys @ [x]). (ys @ [x]) ! k \<le> x"
      using Cons.prems True by (auto simp: nth_append less_Suc_eq)
    have d: "\<forall>k<length ys. (ys @ [x]) ! k < x"
      using Cons.prems True by (auto simp: nth_append)
    from Cons.IH[OF a b c d] True show ?thesis by simp
  next
    case False
    have a: "b < length (ys @ [x])" using Cons.prems by simp
    have b: "(ys @ [x]) ! b = v" using Cons.prems by (simp add: nth_append)
    have c: "\<forall>k<length (ys @ [x]). (ys @ [x]) ! k \<le> v"
      using Cons.prems False by (auto simp: nth_append less_Suc_eq)
    have d: "\<forall>k<b. (ys @ [x]) ! k < v"
      using Cons.prems by (auto simp: nth_append)
    from Cons.IH[OF a b c d] False show ?thesis by simp
  qed
qed


lemma argmin_scan_spec:
  "b < length ys \<Longrightarrow> ys ! b = v \<Longrightarrow> \<forall>k<length ys. v \<le> ys ! k \<Longrightarrow> \<forall>k<b. v < ys ! k \<Longrightarrow>
   argmin_scan xs (length ys) b v < length (ys @ xs) \<and>
   (\<forall>k<length (ys @ xs). (ys @ xs) ! argmin_scan xs (length ys) b v \<le> (ys @ xs) ! k) \<and>
   (\<forall>k<argmin_scan xs (length ys) b v. (ys @ xs) ! argmin_scan xs (length ys) b v < (ys @ xs) ! k)"
proof (induction xs arbitrary: ys b v)
  case Nil
  then show ?case by simp
next
  case (Cons x xs)
  show ?case
  proof (cases "x < v")
    case True
    have a: "length ys < length (ys @ [x])" by simp
    have b: "(ys @ [x]) ! length ys = x" by simp
    have c: "\<forall>k<length (ys @ [x]). x \<le> (ys @ [x]) ! k"
      using Cons.prems True by (auto simp: nth_append less_Suc_eq)
    have d: "\<forall>k<length ys. x < (ys @ [x]) ! k"
      using Cons.prems True by (auto simp: nth_append)
    from Cons.IH[OF a b c d] True show ?thesis by simp
  next
    case False
    have a: "b < length (ys @ [x])" using Cons.prems by simp
    have b: "(ys @ [x]) ! b = v" using Cons.prems by (simp add: nth_append)
    have c: "\<forall>k<length (ys @ [x]). v \<le> (ys @ [x]) ! k"
      using Cons.prems False by (auto simp: nth_append less_Suc_eq)
    have d: "\<forall>k<b. v < (ys @ [x]) ! k"
      using Cons.prems by (auto simp: nth_append)
    from Cons.IH[OF a b c d] False show ?thesis by simp
  qed
qed

lemma traverse_all2: "traverse f xs = Inr ys \<longleftrightarrow> list_all2 (\<lambda>x y. f x = Inr y) xs ys"
proof (induction xs arbitrary: ys)
  case Nil
  then show ?case by auto
next
  case (Cons x xs)
  show ?case
  proof (cases ys)
    case Nil
    then show ?thesis by (simp add: bind_exn_def split: sum.splits)
  next
    case (Cons y ys')
    have "traverse f (x # xs) = Inr (y # ys') \<longleftrightarrow> f x = Inr y \<and> traverse f xs = Inr ys'"
      by (auto simp: bind_exn_def split: sum.splits)
    then show ?thesis using Cons.IH[of ys'] Cons by simp
  qed
qed

lemma idxmax_first:
  assumes "traverse cell_value col = Inr ps" and "ps \<noteq> []"
  shows "\<exists>i. idxmax col = Inr i \<and> i < length ps \<and>
           (\<forall>k<length ps. ps ! k \<le> ps ! i) \<and> (\<forall>k<i. ps ! k < ps ! i)"
proof -
  from assms(2) obtain x xs where ps: "ps = x # xs" by (cases ps) auto
  have "argmax_scan xs (length [x]) 0 x < length ([x] @ xs) \<and>
        (\<forall>k<length ([x] @ xs). ([x] @ xs) ! k \<le> ([x] @ xs) ! argmax_scan xs (length [x]) 0 x) \<and>
        (\<forall>k<argmax_scan xs (length [x]) 0 x. ([x] @ xs) ! k < ([x] @ xs) ! argmax_scan xs (length [x]) 0 x)"
    by (rule argmax_scan_spec) auto
  moreover have "idxmax col = Inr (argmax_scan xs 1 0 x)"
    using assms(1) ps by (simp add: idxmax_def bind_exn_def)
  ultimately show ?thesis using ps by simp
qed

lemma idxmin_first:
  assumes "traverse cell_value col = Inr ps" and "ps \<noteq> []"
  shows "\<exists>i. idxmin col = Inr i \<and> i < length ps \<and>
           (\<forall>k<length ps. ps ! i \<le> ps ! k) \<and> (\<forall>k<i. ps ! i < ps ! k)"
proof -
  from assms(2) obtain x xs where ps: "ps = x # xs" by (cases ps) auto
  have "argmin_scan xs (length [x]) 0 x < length ([x] @ xs) \<and>
        (\<forall>k<length ([x] @ xs). ([x] @ xs) ! argmin_scan xs (length [x]) 0 x \<le> ([x] @ xs) ! k) \<and>
        (\<forall>k<argmin_scan xs (length [x]) 0 x. ([x] @ xs) ! argmin_scan xs (length [x]) 0 x < ([x] @ xs) ! k)"
    by (rule argmin_scan_spec) auto
  moreover have "idxmin col = Inr (argmin_scan xs 1 0 x)"
    using assms(1) ps by (simp add: idxmin_def bind_exn_def)
  ultimately show ?thesis using ps by simp
qed

lemma series_max_Max:
  assumes "traverse cell_value col = Inr ps" and "ps \<noteq> []"
  shows "series_max col = Inr (Max (set ps))"
proof -
  from assms(2) obtain x xs where ps: "ps = x # xs" by (cases ps) auto
  have "Max (set (x # xs)) = fold max xs x" by (rule Max.set_eq_fold)
  then show ?thesis using assms(1) ps by (simp add: series_max_def bind_exn_def)
qed

lemma series_min_Min:
  assumes "traverse cell_value col = Inr ps" and "ps \<noteq> []"
  shows "series_min col = Inr (Min (set ps))"
proof -
  from assms(2) obtain x xs where ps: "ps = x # xs" by (cases ps) auto
  have "Min (set (x # xs)) = fold min xs x" by (rule Min.set_eq_fold)
  then show ?thesis using assms(1) ps by (simp add: series_min_def bind_exn_def)
qed

lemma Max_at_index:
  assumes "i < length ps" and "\<forall>k<length ps. ps ! k \<le> ps ! i"
  shows "Max (set ps) = (ps ! i :: real)"
proof (rule Max_eqI)
  show "finite (set ps)" by simp
  show "ps ! i \<in> set ps" using assms(1) by simp
  fix y assume "y \<in> set ps"
  then obtain k where "k < length ps" "ps ! k = y" by (auto simp: in_set_conv_nth)
  with assms(2) show "y \<le> ps ! i" by auto
qed

lemma Min_at_index:
  assumes "i < length ps" and "\<forall>k<length ps. ps ! i \<le> ps ! k"
  shows "Min (set ps) = (ps ! i :: real)"
proof (rule Min_eqI)
  show "finite (set ps)" by simp
  show "ps ! i \<in> set ps" using assms(1) by simp
  fix y assume "y \<in> set ps"
  then obtain k where "k < length ps" "ps ! k = y" by (auto simp: in_set_conv_nth)
  with assms(2) show "ps ! i \<le> y" by auto
qed

lemma loc_date:
  assumes "getitem df ''date'' = Inr dc" and "list_all (\<lambda>(n, c). length c = m) df" and "i < m"
  shows "bind_exn (loc df i) (\<lambda>row. bind_exn (row_get row ''date'') f) = f (dc ! i)"
proof -
  from assms(1) have mo: "map_of df ''date'' = Some dc"
    by (simp add: getitem_def split: option.splits)
  then have ne: "df \<noteq> []" by auto
  have "list_all (\<lambda>(n, c). i < length c) df"
    using assms(2,3) by (auto simp: list_all_iff)
  with ne have "loc df i = Inr (map (\<lambda>(n, c). (n, c ! i)) df)"
    by (simp add: loc_def)
  moreover have "map_of (map (\<lambda>(n, c). (n, c ! i)) df) ''date'' = Some (dc ! i)"
    using mo by (simp add: map_of_map)
  ultimately show ?thesis by (simp add: bind_exn_def row_get_def)
qed

lemma find_first_index:
  assumes "i < length xs" and "P (xs ! i)" and "\<forall>k<i. \<not> P (xs ! k)"
  shows "find P xs = Some (xs ! i)"
  using assms by (auto simp: find_Some_iff)

subsection \<open>The fetch functions, path by path\<close>

lemma get_coins_list_body_fail:
  assumes "net (length (http_log w)) coins_request = Inr r" and "\<not> ok r"
  shows "get_coins_list_body net w =
           (Inr (JArr []),
            w\<lparr>http_log := http_log w @ [coins_request],
              notices := notices w @ [''Error fetching the coins list.'']\<rparr>)"
  using assms by (simp add: get_coins_list_body_def requests_get_def st_error_def)

lemma get_coins_list_body_ok:
  assumes "net (length (http_log w)) coins_request = Inr r" and "ok r"
  shows "get_coins_list_body net w =
           (response_json r, w\<lparr>http_log := http_log w @ [coins_request]\<rparr>)"
  using assms by (simp add: get_coins_list_body_def requests_get_def split: sum.splits)



lemma get_coins_list_cold:
  assumes "coins_cache w = None" and "get_coins_list_body net w = (Inr v, w1)"
  shows "get_coins_list net w =
           (Inr v, w1\<lparr>coins_cache := Some (v, drop (length (notices w)) (notices w1))\<rparr>)"
  using assms by (simp add: get_coins_list_def)

lemma get_coins_list_cold_fst:
  assumes "coins_cache w = None"
  shows "fst (get_coins_list net w) = fst (get_coins_list_body net w)"
    and "notices (snd (get_coins_list net w)) = notices (snd (get_coins_list_body net w))"
    and "http_log (snd (get_coins_list net w)) = http_log (snd (get_coins_list_body net w))"
  using assms by (simp_all add: get_coins_list_def split: prod.splits sum.splits)

lemma get_coin_history_cold_fst:
  assumes "history_cache w (coin_id, f, t) = None"
  shows "fst (get_coin_history net coin_id f t w) = fst (get_coin_history_body net coin_id f t w)"
    and "notices (snd (get_coin_history net coin_id f t w))
           = notices (snd (get_coin_history_body net coin_id f t w))"
    and "http_log (snd (get_coin_history net coin_id f t w))
           = http_log (snd (get_coin_history_body net coin_id f t w))"
  using assms by (simp_all add: get_coin_history_def split: prod.splits sum.splits)

lemma get_coin_history_body_fail:
  assumes "net (length (http_log w)) (history_request coin_id f t) = Inr r" and "\<not> ok r"
  shows "get_coin_history_body net coin_id f t w =
           (Inr [(''date'', []), (''price'', [])],
            w\<lparr>http_log := http_log w @ [history_request coin_id f t],
              notices := notices w @ [''Error fetching the historical data for '' @ coin_id @ ''.'']\<rparr>)"
  using assms
  by (simp add: get_coin_history_body_def requests_get_def st_error_def DataFrame_empty_def)

lemma get_coin_history_body_ok:
  assumes "net (length (http_log w)) (history_request coin_id f t) = Inr r" and "ok r"
  shows "get_coin_history_body net coin_id f t w =
           (history_frame r, w\<lparr>http_log := http_log w @ [history_request coin_id f t]\<rparr>)"
  using assms by (simp add: get_coin_history_body_def requests_get_def)

lemma get_coin_history_body_cache:
  "history_cache (snd (get_coin_history_body net coin_id f t w)) = history_cache w"
  by (simp add: get_coin_history_body_def requests_get_def st_error_def split: sum.splits)


subsection \<open>The table of a successful history response\<close>

lemma date_of_days_examples:
  "date_of_days 0 = Date 1970 1 1"
  "date_of_days (- 1) = Date 1969 12 31"
  "date_of_days 11016 = Date 2000 2 29"
  "date_of_days (- 25508) = Date 1900 3 1"
  "date_of_days 19675 = Date 2023 11 14"
  "date_of_days 47540 = Date 2100 2 28"
  "date_of_days 47541 = Date 2100 3 1"
  "date_of_days 2932896 = Date 9999 12 31"
  by code_simp+

lemma in_ns_range_int64: "in_ns_range t \<Longrightarrow> in_int64 t"
  by (simp add: in_ns_range_def ns_max_def in_int64_def)

lemma column_cells_timestamps:
  assumes "list_all in_ns_range ts"
  shows "column_cells (map JInt ts) = Inr (map IntCell ts)"
proof -
  have "list_all is_int (map JInt ts)" by (induction ts) simp_all
  moreover have "traverse int64_cell (map JInt ts) = Inr (map IntCell ts)"
    using assms by (induction ts) (simp_all add: bind_exn_def in_ns_range_int64)
  ultimately show ?thesis by (simp add: column_cells_def)
qed

lemma int64_cell_number: "int64_cell p = Inr c \<Longrightarrow> cell_value c = json_number p"
  by (cases p) (auto split: if_splits)

lemma float64_cell_number: "float64_cell p = Inr c \<Longrightarrow> cell_value c = json_number p"
  by (cases p) (auto split: if_splits)

lemma all2_map_eq:
  assumes "list_all2 (\<lambda>x y. g y = h x) xs ys"
  shows "map g ys = map h xs"
  using assms by (induction xs ys rule: list_all2_induct) simp_all

lemma column_cells_numbers:
  assumes "column_cells ps = Inr pcs"
  shows "map cell_value pcs = map json_number ps"
proof (cases "list_all is_int ps")
  case True
  with assms have "list_all2 (\<lambda>p c. int64_cell p = Inr c) ps pcs"
    by (simp add: column_cells_def traverse_all2)
  then have "list_all2 (\<lambda>p c. cell_value c = json_number p) ps pcs"
    by (rule list_all2_mono) (rule int64_cell_number)
  then show ?thesis by (rule all2_map_eq)
next
  case False
  with assms have "list_all2 (\<lambda>p c. float64_cell p = Inr c) ps pcs"
    by (simp add: column_cells_def traverse_all2)
  then have "list_all2 (\<lambda>p c. cell_value c = json_number p) ps pcs"
    by (rule list_all2_mono) (rule float64_cell_number)
  then show ?thesis by (rule all2_map_eq)
qed

lemma column_cells_floats: "column_cells (map JFloat xs) = Inr (map FloatCell xs)"
proof -
  have "traverse float64_cell (map JFloat xs) = Inr (map FloatCell xs)"
    by (induction xs) (simp_all add: bind_exn_def)
  moreover have "traverse int64_cell (map JFloat xs) = Inr (map FloatCell xs)" if "xs = []"
    using that by simp
  moreover have "\<not> list_all is_int (map JFloat xs)" if "xs \<noteq> []"
    using that by (cases xs) simp_all
  ultimately show ?thesis by (cases "xs = []") (simp_all add: column_cells_def)
qed

lemma rows_values:
  assumes "length ts = length ps"
  shows "traverse (row_values (Suc (Suc 0))) (map2 (\<lambda>t p. JArr [JInt t, p]) ts ps)
           = Inr (map2 (\<lambda>t p. [JInt t, p]) ts ps)"
  using assms by (induction ts ps rule: list_induct2) (simp_all add: bind_exn_def)

lemma column0:
  "length ts = length ps \<Longrightarrow> map (\<lambda>r. r ! 0) (map2 (\<lambda>t p. [JInt t, p]) ts ps) = map JInt ts"
  by (induction ts ps rule: list_induct2) simp_all

lemma column1:
  "length ts = length ps \<Longrightarrow> map (\<lambda>r. r ! Suc 0) (map2 (\<lambda>t p. [JInt t, p]) ts ps) = ps"
  by (induction ts ps rule: list_induct2) simp_all

lemma DataFrame_rows:
  assumes "column_cells ps = Inr pcs" and "length ts = length ps" and "list_all in_ns_range ts"
  shows "DataFrame (JArr (map2 (\<lambda>t p. JArr [JInt t, p]) ts ps)) [''timestamp'', ''price'']
           = Inr [(''timestamp'', map IntCell ts), (''price'', pcs)]"
  using rows_values[OF assms(2)] column0[OF assms(2)] column1[OF assms(2)]
    column_cells_timestamps[OF assms(3)] assms(1)
  by (simp add: DataFrame_def bind_exn_def)

lemma dates_of_ms:
  assumes "list_all in_ns_range ts"
  shows "bind_exn (to_datetime_ms (map IntCell ts)) dt_date
           = Inr (map (\<lambda>t. DateCell (date_of_days (t div 86400000))) ts)"
proof -
  have a: "to_datetime_ms (map IntCell ts) = Inr (map DatetimeCell ts)"
    unfolding to_datetime_ms_def
    using assms by (induction ts) (simp_all add: bind_exn_def)
  have b: "dt_date (map DatetimeCell ts)
             = Inr (map (\<lambda>t. DateCell (date_of_days (t div 86400000))) ts)"
    unfolding dt_date_def by (induction ts) (simp_all add: bind_exn_def)
  show ?thesis by (simp add: a b bind_exn_def)
qed

lemma normalize_table:
  assumes "length dates = length ts"
  shows "bind_exn (setitem [(''timestamp'', ts), (''price'', pcs)] ''date'' dates)
            (\<lambda>df'. drop_columns df' [''timestamp''])
           = Inr [(''price'', pcs), (''date'', dates)]"
  using assms by (simp add: setitem_def nrows_def drop_columns_def columns_def bind_exn_def)

lemma history_frame_rows:
  assumes "body r = Some (JObj items)"
    and "map_of items ''prices'' = Some (JArr (map2 (\<lambda>t p. JArr [JInt t, p]) ts ps))"
    and "length ts = length ps"
    and "column_cells ps = Inr pcs"
    and "list_all in_ns_range ts"
  shows "history_frame r
           = Inr [(''price'', pcs), (''date'', map (\<lambda>t. DateCell (date_of_days (t div 86400000))) ts)]"
proof -
  let ?dates = "map (\<lambda>t. DateCell (date_of_days (t div 86400000))) ts"
  have d: "bind_exn (to_datetime_ms (map IntCell ts)) dt_date = Inr ?dates"
    by (rule dates_of_ms[OF assms(5)])
  then obtain dt where dt: "to_datetime_ms (map IntCell ts) = Inr dt" "dt_date dt = Inr ?dates"
    by (auto simp: bind_exn_def split: sum.splits)
  have n: "bind_exn (setitem [(''timestamp'', map IntCell ts), (''price'', pcs)] ''date'' ?dates)
            (\<lambda>df'. drop_columns df' [''timestamp'']) = Inr [(''price'', pcs), (''date'', ?dates)]"
    by (rule normalize_table) simp
  show ?thesis
    unfolding history_frame_def
    by (simp add: response_json_def assms(1,2) dict_get_def bind_exn_def[of "Inr (JObj items)"]
        bind_exn_def[of "Inr (JArr (map2 (\<lambda>t p. JArr [JInt t, p]) ts ps))"]
        DataFrame_rows[OF assms(4,3,5)]
        bind_exn_def[of "Inr [(''timestamp'', map IntCell ts), (''price'', pcs)]"]
        getitem_def bind_exn_def[of "Inr (map IntCell ts)"] dt bind_exn_def[of "Inr dt"]
        bind_exn_def[of "Inr ?dates"] n)
qed

lemma history_frame_absent:
  assumes "body r = Some (JObj items)" and "map_of items ''prices'' = None"
  shows "history_frame r = Inr [(''price'', []), (''date'', [])]"
  using assms
  by (simp add: history_frame_def response_json_def dict_get_def bind_exn_def DataFrame_def
      column_cells_def getitem_def to_datetime_ms_def dt_date_def setitem_def nrows_def
      drop_columns_def columns_def)

lemma DataFrame_two_columns:
  assumes "DataFrame data [a, b] = Inr df"
  shows "\<exists>ca cb. df = [(a, ca), (b, cb)]"
  using assms by (auto simp: DataFrame_def bind_exn_def split: json.splits sum.splits)

lemma history_frame_columns:
  assumes "history_frame r = Inr df"
  shows "columns df = [''price'', ''date'']"
proof -
  from assms obtain prices df0 dates df1 where
    "DataFrame prices [''timestamp'', ''price''] = Inr df0"
    and s: "setitem df0 ''date'' dates = Inr df1"
    and d: "drop_columns df1 [''timestamp''] = Inr df"
    unfolding history_frame_def by (auto simp: bind_exn_def split: sum.splits)
  then obtain ca cb where df0: "df0 = [(''timestamp'', ca), (''price'', cb)]"
    using DataFrame_two_columns by blast
  from s df0 have "df1 = [(''timestamp'', ca), (''price'', cb), (''date'', dates)]"
    by (auto simp: setitem_def split: if_splits)
  with d show ?thesis by (auto simp: drop_columns_def columns_def split: if_splits)
qed

lemma get_coin_history_body_columns:
  assumes "fst (get_coin_history_body net coin_id f t w) = Inr df"
  shows "date_price_columns df"
proof (cases "net (length (http_log w)) (history_request coin_id f t)")
  case (Inl e)
  with assms show ?thesis by (simp add: get_coin_history_body_def requests_get_def)
next
  case (Inr r)
  show ?thesis
  proof (cases "ok r")
    case True
    from get_coin_history_body_ok[of net w coin_id f t r, OF Inr True] assms
    have "history_frame r = Inr df" by simp
    then have "columns df = [''price'', ''date'']" by (rule history_frame_columns)
    then show ?thesis unfolding date_price_columns_def by (simp add: insert_commute)
  next
    case False
    from get_coin_history_body_fail[of net w coin_id f t r, OF Inr False] assms
    have "df = [(''date'', []), (''price'', [])]" by simp
    then show ?thesis by (simp add: date_price_columns_def columns_def)
  qed
qed

subsection \<open>Decimal digits and rounding\<close>



















lemma format_12f_examples:
  "format_12f 105 = ''105.000000000000''"
  "format_12f 90 = ''90.000000000000''"
  "format_12f (1 / 8192) = ''0.000122070312''"
  "format_12f (3 / 8192) = ''0.000366210938''"
  "format_12f (- 1 / 4) = ''-0.250000000000''"
  "float_parse ''105.000000000000'' = Some 105"
  by code_simp+

subsection \<open>Summary statistics\<close>

text \<open>
  Claim C1. For a table with rows whose \<^verbatim>\<open>price\<close> column holds numbers, \<^verbatim>\<open>main\<close>
  takes the branch of the statistics, and they are the maximum and the minimum of the
  prices, each with the date of the first row, in the order of the table, that has
  this price. The series of the table is \<open>zip dc ps\<close>, its dates with its prices.
\<close>

theorem main_stats_first_extreme:
  assumes price: "getitem df ''price'' = Inr pc"
    and dates: "getitem df ''date'' = Inr dc"
    and vals: "traverse cell_value pc = Inr ps"
    and rect: "list_all (\<lambda>(n, c). length c = length ps) df"
    and nonempty: "ps \<noteq> []"
  shows "\<exists>s. main_stats df = Inr s
           \<and> main_report df w = (Inr (Some s), w)
           \<and> max_price s = Max (set ps)
           \<and> min_price s = Min (set ps)
           \<and> find (\<lambda>p. snd p = Max (set ps)) (zip dc ps) = Some (max_price_date s, max_price s)
           \<and> find (\<lambda>p. snd p = Min (set ps)) (zip dc ps) = Some (min_price_date s, min_price s)"
proof -
  from idxmax_first[OF vals nonempty] obtain i where
    i: "idxmax pc = Inr i" "i < length ps" "\<forall>k<length ps. ps ! k \<le> ps ! i" "\<forall>k<i. ps ! k < ps ! i"
    by blast
  from idxmin_first[OF vals nonempty] obtain j where
    j: "idxmin pc = Inr j" "j < length ps" "\<forall>k<length ps. ps ! j \<le> ps ! k" "\<forall>k<j. ps ! j < ps ! k"
    by blast
  have mx: "Max (set ps) = ps ! i" using i by (intro Max_at_index) auto
  have mn: "Min (set ps) = ps ! j" using j by (intro Min_at_index) auto
  from dates have "(''date'', dc) \<in> set df"
    by (auto simp: getitem_def split: option.splits dest: map_of_SomeD)
  with rect have len: "length dc = length ps" by (auto simp: list_all_iff)
  let ?s = "\<lparr>max_price = ps ! i, max_price_date = dc ! i,
             min_price = ps ! j, min_price_date = dc ! j\<rparr>"
  have run: "main_stats df = Inr ?s"
    unfolding main_stats_def
    by (simp add: price bind_exn_def[of "Inr pc"] i(1) j(1) bind_exn_def[of "Inr i"] bind_exn_def[of "Inr j"]
        loc_date[OF dates rect i(2)] loc_date[OF dates rect j(2)]
        series_max_Max[OF vals nonempty] series_min_Min[OF vals nonempty] mx mn
        bind_exn_def[of "Inr (ps ! i)"] bind_exn_def[of "Inr (ps ! j)"])
  have fmax: "find (\<lambda>p. snd p = ps ! i) (zip dc ps) = Some (zip dc ps ! i)"
    using i len by (intro find_first_index) auto
  have fmin: "find (\<lambda>p. snd p = ps ! j) (zip dc ps) = Some (zip dc ps ! j)"
    using j len by (intro find_first_index) auto
  from price obtain n c rest where df: "df = (n, c) # rest"
    by (cases df) (auto simp: getitem_def)
  with rect nonempty have "\<not> df_empty df"
    by (simp add: df_empty_def nrows_def)
  then have report: "main_report df w = (Inr (Some ?s), w)"
    by (simp add: main_report_def run)
  show ?thesis
    using run report fmax fmin i(2) j(2) len by (simp add: mx mn)
qed

theorem main_stats_first_extreme_witness:
  "(\<exists>s. main_stats [(''price'', [FloatCell 100, FloatCell 105, FloatCell 90]),
                     (''date'', [DateCell (Date 2023 11 14), DateCell (Date 2023 11 15),
                                 DateCell (Date 2023 11 16)])] = Inr s
        \<and> max_price s = 105 \<and> max_price_date s = DateCell (Date 2023 11 15)
        \<and> min_price s = 90 \<and> min_price_date s = DateCell (Date 2023 11 16))
   \<and> (\<exists>s. main_stats [(''price'', [IntCell 100, FloatCell 100]),
                       (''date'', [DateCell (Date 2023 11 14), DateCell (Date 2023 11 15)])] = Inr s
        \<and> max_price s = 100 \<and> max_price_date s = DateCell (Date 2023 11 14)
        \<and> min_price s = 100 \<and> min_price_date s = DateCell (Date 2023 11 14))"
proof
  let ?pc = "[FloatCell 100, FloatCell 105, FloatCell 90]"
  let ?dc = "[DateCell (Date 2023 11 14), DateCell (Date 2023 11 15), DateCell (Date 2023 11 16)]"
  let ?df = "[(''price'', ?pc), (''date'', ?dc)]"
  let ?ps = "[100, 105, 90 :: real]"
  have h1: "getitem ?df ''price'' = Inr ?pc" by (simp add: getitem_def)
  have h2: "getitem ?df ''date'' = Inr ?dc" by (simp add: getitem_def)
  have h3: "traverse cell_value ?pc = Inr ?ps" by (simp add: bind_exn_def)
  have h4: "list_all (\<lambda>(n, c). length c = length ?ps) ?df" by simp
  have h5: "?ps \<noteq> []" by simp
  have mx: "Max (set ?ps) = 105" and mn: "Min (set ?ps) = 90" by simp_all
  from main_stats_first_extreme[OF h1 h2 h3 h4 h5, of fresh] obtain s where
    "main_stats ?df = Inr s" "main_report ?df fresh = (Inr (Some s), fresh)"
    "max_price s = Max (set ?ps)" "min_price s = Min (set ?ps)"
    "find (\<lambda>p. snd p = Max (set ?ps)) (zip ?dc ?ps) = Some (max_price_date s, max_price s)"
    "find (\<lambda>p. snd p = Min (set ?ps)) (zip ?dc ?ps) = Some (min_price_date s, min_price s)"
    by blast
  then have "main_stats ?df = Inr s \<and> max_price s = 105 \<and> max_price_date s = DateCell (Date 2023 11 15)
        \<and> min_price s = 90 \<and> min_price_date s = DateCell (Date 2023 11 16)"
    unfolding mx mn by simp
  then show "\<exists>s. main_stats ?df = Inr s
        \<and> max_price s = 105 \<and> max_price_date s = DateCell (Date 2023 11 15)
        \<and> min_price s = 90 \<and> min_price_date s = DateCell (Date 2023 11 16)" by blast
next
  let ?pc = "[IntCell 100, FloatCell 100]"
  let ?dc = "[DateCell (Date 2023 11 14), DateCell (Date 2023 11 15)]"
  let ?df = "[(''price'', ?pc), (''date'', ?dc)]"
  let ?ps = "[100, 100 :: real]"
  have h1: "getitem ?df ''price'' = Inr ?pc" by (simp add: getitem_def)
  have h2: "getitem ?df ''date'' = Inr ?dc" by (simp add: getitem_def)
  have h3: "traverse cell_value ?pc = Inr ?ps" by (simp add: bind_exn_def)
  have h4: "list_all (\<lambda>(n, c). length c = length ?ps) ?df" by simp
  have h5: "?ps \<noteq> []" by simp
  have mx: "Max (set ?ps) = 100" and mn: "Min (set ?ps) = 100" by simp_all
  from main_stats_first_extreme[OF h1 h2 h3 h4 h5, of fresh] obtain s where
    "main_stats ?df = Inr s" "main_report ?df fresh = (Inr (Some s), fresh)"
    "max_price s = Max (set ?ps)" "min_price s = Min (set ?ps)"
    "find (\<lambda>p. snd p = Max (set ?ps)) (zip ?dc ?ps) = Some (max_price_date s, max_price s)"
    "find (\<lambda>p. snd p = Min (set ?ps)) (zip ?dc ?ps) = Some (min_price_date s, min_price s)"
    by blast
  then have "main_stats ?df = Inr s \<and> max_price s = 100 \<and> max_price_date s = DateCell (Date 2023 11 14)
        \<and> min_price s = 100 \<and> min_price_date s = DateCell (Date 2023 11 14)"
    unfolding mx mn by simp
  then show "\<exists>s. main_stats ?df = Inr s
        \<and> max_price s = 100 \<and> max_price_date s = DateCell (Date 2023 11 14)
        \<and> min_price s = 100 \<and> min_price_date s = DateCell (Date 2023 11 14)" by blast
qed

subsection \<open>Normalisation of the history\<close>

text \<open>
  Claim C2, as stated, for every array of pairs of a millisecond timestamp and a price.
  It fails for a timestamp whose day no \<^verbatim>\<open>datetime.date\<close> can hold: for the pair
  \<^verbatim>\<open>[1000000000000000, 100.0]\<close> (a day of the year 33658) line 32 raises a
  \<^verbatim>\<open>ValueError\<close> and the exception leaves \<^verbatim>\<open>get_coin_history\<close>.
\<close>

theorem get_coin_history_out_of_range:
  "fst (get_coin_history
          (always (ok_json (JObj [(''prices'', JArr [JArr [JInt 1000000000000000, JFloat 100]])])))
          ''bitcoin'' 1699920000 1700179199 fresh)
     = Inl ValueError"
  by (simp add: get_coin_history_def get_coin_history_body_def requests_get_def always_def
      fresh_def ok_json_def history_frame_def response_json_def dict_get_def bind_exn_def
      DataFrame_def column_cells_def in_int64_def getitem_def to_datetime_ms_def
      in_ns_range_def ns_max_def after_max_date_def)

text \<open>
  Claim C2, amended. For a successful response whose \<^verbatim>\<open>prices\<close> field is an array of
  pairs of an integer millisecond timestamp and a price, every timestamp within the
  nanosecond range and the prices numbers that their column holds without rounding,
  \<^verbatim>\<open>get_coin_history\<close> returns the table of the two columns \<^verbatim>\<open>price\<close> and \<^verbatim>\<open>date\<close>
  and shows no message. The prices are the numbers of the response, in its order; the
  date of a row is the calendar day of the floor of its timestamp over the 86400000
  milliseconds of a day (UTC); the timestamp itself is not in the table. The witness
  is the response of the specification: day 2023-11-14 and day 2023-11-15.
\<close>

theorem get_coin_history_normalizes:
  assumes "net (length (http_log w)) (history_request coin_id f t) = Inr r"
    and "ok r"
    and "body r = Some (JObj items)"
    and "map_of items ''prices'' = Some (JArr (map2 (\<lambda>ms p. JArr [JInt ms, p]) ts ps))"
    and "length ts = length ps"
    and "column_cells ps = Inr pcs"
    and "list_all in_ns_range ts"
    and "history_cache w (coin_id, f, t) = None"
  shows "fst (get_coin_history net coin_id f t w)
           = Inr [(''price'', pcs),
                  (''date'', map (\<lambda>ms. DateCell (date_of_days (ms div 86400000))) ts)]
       \<and> map cell_value pcs = map json_number ps
       \<and> notices (snd (get_coin_history net coin_id f t w)) = notices w"
  using get_coin_history_body_ok[of net w coin_id f t r, OF assms(1,2)]
    history_frame_rows[OF assms(3,4,5,6,7)] column_cells_numbers[OF assms(6)]
  by (simp add: get_coin_history_cold_fst[OF assms(8)])

theorem get_coin_history_normalizes_witness:
  "fst (get_coin_history
          (always (ok_json (JObj [(''prices'',
             JArr [JArr [JInt 1700000000000, JFloat 100], JArr [JInt 1700086400000, JFloat 105]])])))
          ''bitcoin'' 1699920000 1700179199 fresh)
     = Inr [(''price'', [FloatCell 100, FloatCell 105]),
            (''date'', [DateCell (Date 2023 11 14), DateCell (Date 2023 11 15)])]"
proof -
  let ?items = "[(''prices'',
             JArr [JArr [JInt 1700000000000, JFloat 100], JArr [JInt 1700086400000, JFloat 105]])]"
  let ?r = "ok_json (JObj ?items)"
  have h1: "always ?r (length (http_log fresh)) (history_request ''bitcoin'' 1699920000 1700179199) = Inr ?r"
    by (simp add: always_def)
  have h2: "ok ?r" and h3: "body ?r = Some (JObj ?items)" by (simp_all add: ok_json_def)
  have h4: "map_of ?items ''prices''
      = Some (JArr (map2 (\<lambda>ms p. JArr [JInt ms, p]) [1700000000000, 1700086400000] [JFloat 100, JFloat 105]))"
    by simp
  have h5: "length [1700000000000, 1700086400000 :: int] = length [JFloat 100, JFloat 105]" by simp
  have h6: "column_cells [JFloat 100, JFloat 105] = Inr [FloatCell 100, FloatCell 105]"
    by (simp add: column_cells_def bind_exn_def)
  have h7: "list_all in_ns_range [1700000000000, 1700086400000]"
    by (simp add: in_ns_range_def ns_max_def)
  have h8: "history_cache fresh (''bitcoin'', 1699920000, 1700179199) = None"
    by (simp add: fresh_def)
  have d: "date_of_days 19675 = Date 2023 11 14" "date_of_days 19676 = Date 2023 11 15"
    by code_simp+
  from get_coin_history_normalizes[of "always ?r" fresh "''bitcoin''" 1699920000 1700179199 ?r ?items
      "[1700000000000, 1700086400000]" "[JFloat 100, JFloat 105]" "[FloatCell 100, FloatCell 105]",
      OF h1 h2 h3 h4 h5 h6 h7 h8] show ?thesis
    by (simp add: d)
qed


subsection \<open>Failure of the catalog request\<close>

text \<open>
  Claim C3. When the catalog endpoint answers with a status that is not a success
  (\<^verbatim>\<open>response.ok\<close> is false), \<^verbatim>\<open>get_coins_list\<close> raises nothing, returns the empty
  list and shows exactly one message. The call is one that reaches the endpoint: the
  store holds no earlier result.
\<close>

theorem get_coins_list_failure:
  assumes "net (length (http_log w)) coins_request = Inr r"
    and "\<not> ok r"
    and "coins_cache w = None"
  shows "fst (get_coins_list net w) = Inr (JArr [])
       \<and> notices (snd (get_coins_list net w)) = notices w @ [''Error fetching the coins list.'']"
  using get_coins_list_cold[OF assms(3) get_coins_list_body_fail[of net w r, OF assms(1,2)]] by simp

theorem get_coins_list_failure_witness:
  "fst (get_coins_list (always http_500) fresh) = Inr (JArr [])
   \<and> notices (snd (get_coins_list (always http_500) fresh)) = [''Error fetching the coins list.'']"
  using get_coins_list_failure[of "always http_500" fresh http_500]
  by (simp add: always_def fresh_def http_500_def)


subsection \<open>Failure of the history request\<close>

text \<open>
  Claim C4. When the history endpoint answers with a status that is not a success,
  \<^verbatim>\<open>get_coin_history\<close> raises nothing, shows one message that names the coin, and
  returns the table with the columns \<^verbatim>\<open>date\<close> and \<^verbatim>\<open>price\<close> and no rows.
\<close>

theorem get_coin_history_failure:
  assumes "net (length (http_log w)) (history_request coin_id f t) = Inr r"
    and "\<not> ok r"
    and "history_cache w (coin_id, f, t) = None"
  shows "fst (get_coin_history net coin_id f t w) = Inr [(''date'', []), (''price'', [])]
       \<and> df_empty [(''date'', []), (''price'', [])]
       \<and> notices (snd (get_coin_history net coin_id f t w))
           = notices w @ [''Error fetching the historical data for '' @ coin_id @ ''.'']"
  using get_coin_history_body_fail[of net w coin_id f t r, OF assms(1,2)]
  by (simp add: get_coin_history_cold_fst[OF assms(3)] df_empty_def nrows_def)

theorem get_coin_history_failure_witness:
  "fst (get_coin_history (always http_500) ''bitcoin'' 1699920000 1700179199 fresh)
     = Inr [(''date'', []), (''price'', [])]
   \<and> notices (snd (get_coin_history (always http_500) ''bitcoin'' 1699920000 1700179199 fresh))
     = [''Error fetching the historical data for bitcoin.'']"
  using get_coin_history_failure[of "always http_500" fresh "''bitcoin''" 1699920000 1700179199 http_500]
  by (simp add: always_def fresh_def http_500_def)


subsection \<open>Which exceptions leave the fetch functions\<close>

text \<open>
  Claim C5, as stated, for any response. It fails for responses with a success status:
  the source catches nothing, so a body that is not JSON text raises out of
  \<^verbatim>\<open>response.json()\<close> in both functions, with no message shown; in
  \<^verbatim>\<open>get_coin_history\<close> so do a JSON body that is not an object (\<^verbatim>\<open>data.get\<close>) and a
  timestamp after the last \<^verbatim>\<open>datetime.date\<close> (line 32).
\<close>

theorem fetch_raises_on_malformed_success:
  "fst (get_coins_list (always ok_not_json) fresh) = Inl JSONDecodeError
   \<and> notices (snd (get_coins_list (always ok_not_json) fresh)) = []
   \<and> fst (get_coin_history (always ok_not_json) ''bitcoin'' 1699920000 1700179199 fresh)
       = Inl JSONDecodeError
   \<and> notices (snd (get_coin_history (always ok_not_json) ''bitcoin'' 1699920000 1700179199 fresh)) = []
   \<and> fst (get_coin_history (always (ok_json (JArr []))) ''bitcoin'' 1699920000 1700179199 fresh)
       = Inl AttributeError
   \<and> fst (get_coin_history
            (always (ok_json (JObj [(''prices'', JArr [JArr [JInt 1000000000000000, JFloat 100]])])))
            ''bitcoin'' 1699920000 1700179199 fresh)
       = Inl ValueError"
  by (simp add: get_coins_list_def get_coins_list_body_def get_coin_history_def
      get_coin_history_body_def requests_get_def always_def fresh_def ok_not_json_def ok_json_def
      response_json_def history_frame_def dict_get_def bind_exn_def
      DataFrame_def column_cells_def in_int64_def getitem_def to_datetime_ms_def
      in_ns_range_def ns_max_def after_max_date_def)

text \<open>
  Claim C5, amended. No exception leaves either fetch function for a response whose
  status is not a success: this is the failure path, and it returns the empty value
  and shows one message. None leaves for a well-formed response with a success status
  either, and no message is shown: for \<^verbatim>\<open>get_coins_list\<close> a body that is JSON, for
  \<^verbatim>\<open>get_coin_history\<close> a JSON object whose \<^verbatim>\<open>prices\<close> field is absent or an array of
  pairs as in claim C2. The witness runs a failure, a success with one row and a
  success without \<^verbatim>\<open>prices\<close>.
\<close>

theorem fetch_no_exception:
  assumes "net (length (http_log w)) coins_request = Inr r"
    and "net (length (http_log w)) (history_request coin_id f t) = Inr r'"
    and "coins_cache w = None"
    and "history_cache w (coin_id, f, t) = None"
    and "ok r \<longrightarrow> body r \<noteq> None"
    and "ok r' \<longrightarrow>
           body r' = Some (JObj items)
           \<and> (map_of items ''prices'' = None
              \<or> map_of items ''prices'' = Some (JArr (map2 (\<lambda>ms p. JArr [JInt ms, p]) ts ps))
                \<and> length ts = length ps \<and> column_cells ps = Inr pcs \<and> list_all in_ns_range ts)"
  shows "\<not> isl (fst (get_coins_list net w))
       \<and> \<not> isl (fst (get_coin_history net coin_id f t w))
       \<and> (ok r \<longrightarrow> notices (snd (get_coins_list net w)) = notices w)
       \<and> (ok r' \<longrightarrow> notices (snd (get_coin_history net coin_id f t w)) = notices w)
       \<and> (\<not> ok r \<longrightarrow>
             fst (get_coins_list net w) = Inr (JArr [])
           \<and> notices (snd (get_coins_list net w)) = notices w @ [''Error fetching the coins list.''])
       \<and> (\<not> ok r' \<longrightarrow>
             fst (get_coin_history net coin_id f t w) = Inr [(''date'', []), (''price'', [])]
           \<and> notices (snd (get_coin_history net coin_id f t w))
               = notices w @ [''Error fetching the historical data for '' @ coin_id @ ''.''])"
proof -
  have a: "\<not> isl (fst (get_coins_list net w)) \<and> notices (snd (get_coins_list net w)) = notices w"
    if "ok r"
  proof -
    from that assms(5) obtain v where "body r = Some v" by auto
    then show ?thesis
      using get_coins_list_body_ok[of net w r, OF assms(1) that]
      by (simp add: get_coins_list_cold_fst[OF assms(3)] response_json_def)
  qed
  have b: "fst (get_coins_list net w) = Inr (JArr [])
             \<and> notices (snd (get_coins_list net w)) = notices w @ [''Error fetching the coins list.'']"
    if "\<not> ok r"
    using get_coins_list_body_fail[of net w r, OF assms(1) that]
    by (simp add: get_coins_list_cold_fst[OF assms(3)])
  have c: "\<not> isl (fst (get_coin_history net coin_id f t w))
             \<and> notices (snd (get_coin_history net coin_id f t w)) = notices w" if "ok r'"
  proof -
    from that assms(6) have bd: "body r' = Some (JObj items)"
      and cases: "map_of items ''prices'' = None
              \<or> map_of items ''prices'' = Some (JArr (map2 (\<lambda>ms p. JArr [JInt ms, p]) ts ps))
                \<and> length ts = length ps \<and> column_cells ps = Inr pcs \<and> list_all in_ns_range ts"
      by simp_all
    from cases have "\<not> isl (history_frame r')"
    proof
      assume "map_of items ''prices'' = None"
      from history_frame_absent[OF bd this] show ?thesis by simp
    next
      assume h: "map_of items ''prices'' = Some (JArr (map2 (\<lambda>ms p. JArr [JInt ms, p]) ts ps))
                \<and> length ts = length ps \<and> column_cells ps = Inr pcs \<and> list_all in_ns_range ts"
      then have h1: "map_of items ''prices'' = Some (JArr (map2 (\<lambda>ms p. JArr [JInt ms, p]) ts ps))"
        and h2: "length ts = length ps" and h3: "column_cells ps = Inr pcs"
        and h4: "list_all in_ns_range ts"
        by simp_all
      from history_frame_rows[OF bd h1 h2 h3 h4] show ?thesis by simp
    qed
    then show ?thesis
      using get_coin_history_body_ok[of net w coin_id f t r', OF assms(2) that]
      by (simp add: get_coin_history_cold_fst[OF assms(4)])
  qed
  have d: "fst (get_coin_history net coin_id f t w) = Inr [(''date'', []), (''price'', [])]
             \<and> notices (snd (get_coin_history net coin_id f t w))
                 = notices w @ [''Error fetching the historical data for '' @ coin_id @ ''.'']"
    if "\<not> ok r'"
    using get_coin_history_body_fail[of net w coin_id f t r', OF assms(2) that]
    by (simp add: get_coin_history_cold_fst[OF assms(4)])
  show ?thesis
  proof (cases "ok r"; cases "ok r'")
    assume "ok r" "ok r'" with a c show ?thesis by simp
  next
    assume "ok r" "\<not> ok r'" with a d show ?thesis by simp
  next
    assume "\<not> ok r" "ok r'" with b c show ?thesis by simp
  next
    assume "\<not> ok r" "\<not> ok r'" with b d show ?thesis by simp
  qed
qed

theorem fetch_no_exception_witness:
  "\<not> isl (fst (get_coins_list (always http_500) fresh))
   \<and> notices (snd (get_coins_list (always http_500) fresh)) = [''Error fetching the coins list.'']
   \<and> \<not> isl (fst (get_coin_history (always http_500) ''bitcoin'' 1699920000 1700179199 fresh))
   \<and> notices (snd (get_coin_history (always http_500) ''bitcoin'' 1699920000 1700179199 fresh))
       = [''Error fetching the historical data for bitcoin.'']
   \<and> \<not> isl (fst (get_coins_list
         (always (ok_json (JObj [(''prices'', JArr [JArr [JInt 1700000000000, JFloat 100]])]))) fresh))
   \<and> notices (snd (get_coins_list
         (always (ok_json (JObj [(''prices'', JArr [JArr [JInt 1700000000000, JFloat 100]])]))) fresh)) = []
   \<and> \<not> isl (fst (get_coin_history
         (always (ok_json (JObj [(''prices'', JArr [JArr [JInt 1700000000000, JFloat 100]])])))
         ''bitcoin'' 1699920000 1700179199 fresh))
   \<and> notices (snd (get_coin_history
         (always (ok_json (JObj [(''prices'', JArr [JArr [JInt 1700000000000, JFloat 100]])])))
         ''bitcoin'' 1699920000 1700179199 fresh)) = []
   \<and> \<not> isl (fst (get_coin_history (always (ok_json (JObj [(''market_caps'', JArr [])])))
         ''bitcoin'' 1699920000 1700179199 fresh))"
proof -
  let ?items = "[(''prices'', JArr [JArr [JInt 1700000000000, JFloat 100]])]"
  let ?r = "ok_json (JObj ?items)"
  let ?items' = "[(''market_caps'', JArr [])]"
  let ?r' = "ok_json (JObj ?items')"
  have cold: "coins_cache fresh = None" "history_cache fresh (''bitcoin'', 1699920000, 1700179199) = None"
    "notices fresh = []"
    by (simp_all add: fresh_def)
  have fail: "\<not> ok http_500" by (simp add: http_500_def)
  have ok: "ok ?r" "body ?r = Some (JObj ?items)" "ok ?r'" "body ?r' = Some (JObj ?items')"
    by (simp_all add: ok_json_def)
  have shape: "map_of ?items ''prices'' = Some (JArr (map2 (\<lambda>ms p. JArr [JInt ms, p]) [1700000000000] [JFloat 100]))"
    "length [1700000000000 :: int] = length [JFloat 100]"
    "column_cells [JFloat 100] = Inr [FloatCell 100]"
    "list_all in_ns_range [1700000000000]"
    "map_of ?items' ''prices'' = None"
    by (simp_all add: column_cells_def bind_exn_def in_ns_range_def ns_max_def)
  have t1: "\<not> isl (fst (get_coins_list (always http_500) fresh))
     \<and> notices (snd (get_coins_list (always http_500) fresh)) = [''Error fetching the coins list.'']
     \<and> \<not> isl (fst (get_coin_history (always http_500) ''bitcoin'' 1699920000 1700179199 fresh))
     \<and> notices (snd (get_coin_history (always http_500) ''bitcoin'' 1699920000 1700179199 fresh))
       = [''Error fetching the historical data for bitcoin.'']"
    using fetch_no_exception[of "always http_500" fresh http_500 "''bitcoin''" 1699920000 1700179199
        http_500 "[]" "[]" "[]" "[]"] cold fail
    by (simp add: always_def)
  have t2: "\<not> isl (fst (get_coins_list (always ?r) fresh))
     \<and> notices (snd (get_coins_list (always ?r) fresh)) = []
     \<and> \<not> isl (fst (get_coin_history (always ?r) ''bitcoin'' 1699920000 1700179199 fresh))
     \<and> notices (snd (get_coin_history (always ?r) ''bitcoin'' 1699920000 1700179199 fresh)) = []"
    using fetch_no_exception[of "always ?r" fresh ?r "''bitcoin''" 1699920000 1700179199
        ?r ?items "[1700000000000]" "[JFloat 100]" "[FloatCell 100]"] cold ok shape
    by (simp add: always_def)
  have t3: "\<not> isl (fst (get_coin_history (always ?r') ''bitcoin'' 1699920000 1700179199 fresh))"
    using fetch_no_exception[of "always ?r'" fresh ?r' "''bitcoin''" 1699920000 1700179199
        ?r' ?items' "[]" "[]" "[]"] cold ok shape
    by (simp add: always_def)
  from t1 t2 t3 show ?thesis by simp
qed


subsection \<open>The catalog of a successful response\<close>

text \<open>
  Claim C6, as stated: every returned entry has a non-empty \<^verbatim>\<open>id\<close> and
  \<^verbatim>\<open>name\<close>. It fails: the function checks no entry, and an entry of the response
  with an empty \<^verbatim>\<open>id\<close> is returned as it is.
\<close>

theorem get_coins_list_unvalidated:
  "fst (get_coins_list (always (ok_json (JArr [JObj [(''id'', JStr ''''), (''name'', JStr ''Bitcoin'')]]))) fresh)
     = Inr (JArr [JObj [(''id'', JStr ''''), (''name'', JStr ''Bitcoin'')]])
   \<and> \<not> nonempty_id_name (JObj [(''id'', JStr ''''), (''name'', JStr ''Bitcoin'')])"
  by (simp add: get_coins_list_def get_coins_list_body_def requests_get_def always_def fresh_def
      ok_json_def response_json_def nonempty_id_name_def)

text \<open>
  Claim C6, amended. For a successful response whose body is an array,
  \<^verbatim>\<open>get_coins_list\<close> issues one GET, shows no message and returns the array of the
  response itself: as many entries, in the same order, each unchanged (so an entry
  has a non-empty \<^verbatim>\<open>id\<close> and \<^verbatim>\<open>name\<close> exactly when the response gave it one).
\<close>

theorem get_coins_list_passes_through:
  assumes "net (length (http_log w)) coins_request = Inr r"
    and "ok r"
    and "body r = Some (JArr entries)"
    and "coins_cache w = None"
  shows "fst (get_coins_list net w) = Inr (JArr entries)
       \<and> notices (snd (get_coins_list net w)) = notices w
       \<and> http_log (snd (get_coins_list net w)) = http_log w @ [coins_request]"
proof -
  have "get_coins_list_body net w = (Inr (JArr entries), w\<lparr>http_log := http_log w @ [coins_request]\<rparr>)"
    using get_coins_list_body_ok[of net w r, OF assms(1,2)] assms(3) by (simp add: response_json_def)
  from get_coins_list_cold[OF assms(4) this] show ?thesis by simp
qed

theorem get_coins_list_passes_through_witness:
  "fst (get_coins_list
          (always (ok_json (JArr [JObj [(''id'', JStr ''bitcoin''), (''symbol'', JStr ''btc''), (''name'', JStr ''Bitcoin'')],
                                  JObj [(''id'', JStr ''ethereum''), (''symbol'', JStr ''eth''), (''name'', JStr ''Ethereum'')]])))
          fresh)
     = Inr (JArr [JObj [(''id'', JStr ''bitcoin''), (''symbol'', JStr ''btc''), (''name'', JStr ''Bitcoin'')],
                  JObj [(''id'', JStr ''ethereum''), (''symbol'', JStr ''eth''), (''name'', JStr ''Ethereum'')]])
   \<and> notices (snd (get_coins_list
          (always (ok_json (JArr [JObj [(''id'', JStr ''bitcoin''), (''symbol'', JStr ''btc''), (''name'', JStr ''Bitcoin'')],
                                  JObj [(''id'', JStr ''ethereum''), (''symbol'', JStr ''eth''), (''name'', JStr ''Ethereum'')]])))
          fresh)) = []"
  using get_coins_list_passes_through[of
      "always (ok_json (JArr [JObj [(''id'', JStr ''bitcoin''), (''symbol'', JStr ''btc''), (''name'', JStr ''Bitcoin'')],
                                  JObj [(''id'', JStr ''ethereum''), (''symbol'', JStr ''eth''), (''name'', JStr ''Ethereum'')]]))"
      fresh
      "ok_json (JArr [JObj [(''id'', JStr ''bitcoin''), (''symbol'', JStr ''btc''), (''name'', JStr ''Bitcoin'')],
                                  JObj [(''id'', JStr ''ethereum''), (''symbol'', JStr ''eth''), (''name'', JStr ''Ethereum'')]])"
      "[JObj [(''id'', JStr ''bitcoin''), (''symbol'', JStr ''btc''), (''name'', JStr ''Bitcoin'')],
                                  JObj [(''id'', JStr ''ethereum''), (''symbol'', JStr ''eth''), (''name'', JStr ''Ethereum'')]]"]
  by (simp add: always_def fresh_def ok_json_def)


subsection \<open>The store of the catalog\<close>




subsection \<open>Twelve decimals and back\<close>



subsection \<open>A successful response without prices\<close>

text \<open>
  Claim C9. For a successful response whose body is an object with no \<^verbatim>\<open>prices\<close>
  field, \<^verbatim>\<open>get_coin_history\<close> raises nothing, shows no message and returns the table
  with the columns \<^verbatim>\<open>price\<close> and \<^verbatim>\<open>date\<close> and no rows.
\<close>

theorem get_coin_history_no_prices:
  assumes "net (length (http_log w)) (history_request coin_id f t) = Inr r"
    and "ok r"
    and "body r = Some (JObj items)"
    and "map_of items ''prices'' = None"
    and "history_cache w (coin_id, f, t) = None"
  shows "fst (get_coin_history net coin_id f t w) = Inr [(''price'', []), (''date'', [])]
       \<and> df_empty [(''price'', []), (''date'', [])]
       \<and> notices (snd (get_coin_history net coin_id f t w)) = notices w"
  using get_coin_history_body_ok[of net w coin_id f t r, OF assms(1,2)]
    history_frame_absent[OF assms(3,4)]
  by (simp add: get_coin_history_cold_fst[OF assms(5)] df_empty_def nrows_def)

theorem get_coin_history_no_prices_witness:
  "fst (get_coin_history (always (ok_json (JObj [(''market_caps'', JArr [])])))
          ''bitcoin'' 1699920000 1700179199 fresh)
     = Inr [(''price'', []), (''date'', [])]
   \<and> notices (snd (get_coin_history (always (ok_json (JObj [(''market_caps'', JArr [])])))
          ''bitcoin'' 1699920000 1700179199 fresh)) = []"
  using get_coin_history_no_prices[of "always (ok_json (JObj [(''market_caps'', JArr [])]))" fresh
      "''bitcoin''" 1699920000 1700179199 "ok_json (JObj [(''market_caps'', JArr [])])"
      "[(''market_caps'', JArr [])]"]
  by (simp add: always_def fresh_def ok_json_def)


subsection \<open>The columns of every returned table\<close>

text \<open>
  Claim C10. Every table that \<^verbatim>\<open>get_coin_history\<close> returns has exactly the columns
  \<^verbatim>\<open>date\<close> and \<^verbatim>\<open>price\<close>, each once: on failure, on success with or without rows,
  and when the answer comes from the store, whose entries are tables returned
  before (the property of the store is kept by every call). The witness runs the
  failure path and a success with one row.
\<close>

theorem get_coin_history_columns:
  assumes inv: "\<forall>k v msgs. history_cache w k = Some (v, msgs) \<longrightarrow> date_price_columns v"
    and run: "get_coin_history net coin_id f t w = (Inr df, w')"
  shows "date_price_columns df
       \<and> (\<forall>k v msgs. history_cache w' k = Some (v, msgs) \<longrightarrow> date_price_columns v)"
proof (cases "history_cache w (coin_id, f, t)")
  case None
  obtain x w1 where b: "get_coin_history_body net coin_id f t w = (x, w1)"
    by (cases "get_coin_history_body net coin_id f t w")
  from run have x: "x = Inr df"
    and w': "history_cache w' = (history_cache w1)((coin_id, f, t) \<mapsto>
                        (df, drop (length (notices w)) (notices w1)))"
    by (auto simp: get_coin_history_def None b split: sum.splits)
  have c: "date_price_columns df"
    using get_coin_history_body_columns[of net coin_id f t w df] b x by simp
  have same: "history_cache w1 = history_cache w"
    using get_coin_history_body_cache[of net coin_id f t w] b by simp
  have "date_price_columns v" if "history_cache w' k = Some (v, msgs)" for k v msgs
  proof (cases "k = (coin_id, f, t)")
    case True
    with that w' have "v = df" by simp
    with c show ?thesis by simp
  next
    case False
    with that w' same have "history_cache w k = Some (v, msgs)" by simp
    with inv show ?thesis by blast
  qed
  with c show ?thesis by blast
next
  case (Some a)
  obtain v msgs where a: "a = (v, msgs)" by (cases a)
  from run have v: "v = df" and same: "history_cache w' = history_cache w"
    by (auto simp: get_coin_history_def Some a)
  from inv Some a v have "date_price_columns df" by blast
  with inv same show ?thesis by simp
qed

theorem get_coin_history_columns_witness:
  "get_coin_history (always http_500) ''bitcoin'' 1699920000 1700179199 fresh
     = (Inr [(''date'', []), (''price'', [])],
        snd (get_coin_history (always http_500) ''bitcoin'' 1699920000 1700179199 fresh))
   \<and> date_price_columns [(''date'', []), (''price'', [])]
   \<and> get_coin_history
        (always (ok_json (JObj [(''prices'', JArr [JArr [JInt 1700000000000, JFloat 100]])])))
        ''bitcoin'' 1699920000 1700179199 fresh
     = (Inr [(''price'', [FloatCell 100]), (''date'', [DateCell (Date 2023 11 14)])],
        snd (get_coin_history
          (always (ok_json (JObj [(''prices'', JArr [JArr [JInt 1700000000000, JFloat 100]])])))
          ''bitcoin'' 1699920000 1700179199 fresh))
   \<and> date_price_columns [(''price'', [FloatCell 100]), (''date'', [DateCell (Date 2023 11 14)])]"
proof -
  let ?w1 = "snd (get_coin_history (always http_500) ''bitcoin'' 1699920000 1700179199 fresh)"
  let ?net = "always (ok_json (JObj [(''prices'', JArr [JArr [JInt 1700000000000, JFloat 100]])]))"
  let ?w2 = "snd (get_coin_history ?net ''bitcoin'' 1699920000 1700179199 fresh)"
  have inv: "\<forall>k v msgs. history_cache fresh k = Some (v, msgs) \<longrightarrow> date_price_columns v"
    by (simp add: fresh_def)
  have "fst (get_coin_history (always http_500) ''bitcoin'' 1699920000 1700179199 fresh)
          = Inr [(''date'', []), (''price'', [])]"
    by (simp add: get_coin_history_def get_coin_history_body_def requests_get_def always_def
        fresh_def http_500_def DataFrame_empty_def)
  then have run1: "get_coin_history (always http_500) ''bitcoin'' 1699920000 1700179199 fresh
          = (Inr [(''date'', []), (''price'', [])], ?w1)"
    by (simp add: prod_eq_iff)
  have d: "date_of_days 19675 = Date 2023 11 14"
    by code_simp
  have "history_frame (ok_json (JObj [(''prices'', JArr [JArr [JInt 1700000000000, JFloat 100]])]))
          = Inr [(''price'', [FloatCell 100]), (''date'', [DateCell (Date 2023 11 14)])]"
    using history_frame_rows[of "ok_json (JObj [(''prices'', JArr [JArr [JInt 1700000000000, JFloat 100]])])"
        "[(''prices'', JArr [JArr [JInt 1700000000000, JFloat 100]])]" "[1700000000000]" "[JFloat 100]"
        "[FloatCell 100]"]
    by (simp add: ok_json_def in_ns_range_def ns_max_def d column_cells_def bind_exn_def)
  then have "fst (get_coin_history ?net ''bitcoin'' 1699920000 1700179199 fresh)
          = Inr [(''price'', [FloatCell 100]), (''date'', [DateCell (Date 2023 11 14)])]"
    by (simp add: get_coin_history_def get_coin_history_body_def requests_get_def always_def
        fresh_def ok_json_def)
  then have run2: "get_coin_history ?net ''bitcoin'' 1699920000 1700179199 fresh
          = (Inr [(''price'', [FloatCell 100]), (''date'', [DateCell (Date 2023 11 14)])], ?w2)"
    by (simp add: prod_eq_iff)
  from get_coin_history_columns[OF inv run1] get_coin_history_columns[OF inv run2] run1 run2
  show ?thesis by blast
qed

end
